theory Spec2Isabelle
  imports Main "HOL-Library.Sublist"
begin

section \<open>Errors and strings\<close>

text \<open>
  A Go \<open>error\<close> is modelled by its message. A function returning \<open>(T, error)\<close> becomes
  a function into \<open>error + T\<close> (\<open>Inl\<close> the error), a function returning only
  \<open>error\<close> one into \<open>error option\<close> (\<open>None\<close> for \<open>nil\<close>).
\<close>

datatype error = Err string

text \<open>\<open>errors.WithMessage(err, msg)\<close>: the message is prefixed, separated by a colon.\<close>

fun WithMessage :: "error \<Rightarrow> string \<Rightarrow> error" where
  "WithMessage (Err m) msg = Err (msg @ '': '' @ m)"

text \<open>\<open>strings.HasPrefix(s, p)\<close>.\<close>

definition HasPrefix :: "string \<Rightarrow> string \<Rightarrow> bool" where
  "HasPrefix s p = prefix p s"

text \<open>
  \<open>strings.Index(s, sub)\<close>: the position of the first occurrence of \<open>sub\<close> in \<open>s\<close>
  (\<open>None\<close> for Go's \<open>-1\<close>); the empty string occurs at position 0.
\<close>

fun Index :: "string \<Rightarrow> string \<Rightarrow> nat option" where
  "Index [] sub = (if sub = [] then Some 0 else None)"
| "Index (c # cs) sub =
     (if prefix sub (c # cs) then Some 0 else map_option Suc (Index cs sub))"

definition Contains :: "string \<Rightarrow> string \<Rightarrow> bool" where
  "Contains s sub = (Index s sub \<noteq> None)"

text \<open>
  \<open>strings.Replace(s, old, new, 1)\<close>: the first occurrence of \<open>old\<close> is replaced; the
  string is returned as it is when \<open>old = new\<close> or \<open>old\<close> does not occur.
\<close>

definition Replace1 :: "string \<Rightarrow> string \<Rightarrow> string \<Rightarrow> string" where
  "Replace1 s old new =
     (if old = new then s
      else (case Index s old of
              None \<Rightarrow> s
            | Some j \<Rightarrow> take j s @ new @ drop (j + length old) s))"

text \<open>
  \<open>strings.ToLower\<close>. On a string of ASCII bytes only (every byte below
  \<open>utf8.RuneSelf\<close>, 128) the bytes \<open>A\<close> to \<open>Z\<close> are moved by \<open>'a' - 'A'\<close> and every
  other byte is kept. Any other string is mapped rune by rune with \<open>unicode.ToLower\<close>;
  the Unicode tables are not modelled, and that mapping is the parameter
  \<open>unicodeLower\<close>.
\<close>

definition toLowerByte :: "char \<Rightarrow> char" where
  "toLowerByte c =
     (if 65 \<le> (of_char c :: nat) \<and> (of_char c :: nat) \<le> 90
      then char_of ((of_char c :: nat) + 32) else c)"

definition isASCII :: "string \<Rightarrow> bool" where
  "isASCII s = list_all (\<lambda>c. (of_char c :: nat) < 128) s"

definition ToLower :: "(string \<Rightarrow> string) \<Rightarrow> string \<Rightarrow> string" where
  "ToLower unicodeLower s = (if isASCII s then map toLowerByte s else unicodeLower s)"

text \<open>
  \<open>fmt.Sprint\<close> of string operands: the operands are written one after the other in
  their default format; a space is put between two operands only when neither is a
  string, so never here.
\<close>

definition Sprint :: "string list \<Rightarrow> string" where
  "Sprint operands = concat operands"

text \<open>The pieces of a text between the occurrences of a byte, empty ones included.\<close>

fun splitOn :: "char \<Rightarrow> string \<Rightarrow> string list" where
  "splitOn d [] = [[]]"
| "splitOn d (c # cs) =
     (if c = d then [] # splitOn d cs
      else (case splitOn d cs of [] \<Rightarrow> [[c]] | e # es \<Rightarrow> (c # e) # es))"

definition textLines :: "string \<Rightarrow> string list" where
  "textLines s = splitOn CHR 0x0A s"

section \<open>Paths (path/filepath with Separator \<open>/\<close>)\<close>

text \<open>
  The runtimes call Go's \<open>path/filepath\<close>. It is modelled for targets whose separator
  is \<open>/\<close> and that have no volume names. \<open>Clean\<close> is modelled per path element: Go's
  loop reads the path element by element, skips empty and \<open>.\<close> elements, lets \<open>..\<close>
  remove the last real element written (or keeps it at the front of a path that is not
  rooted, or drops it at the root), and copies every other element.
\<close>

definition Separator :: char where
  "Separator = CHR ''/''"

definition IsPathSeparator :: "char \<Rightarrow> bool" where
  "IsPathSeparator c = (c = Separator)"

text \<open>The elements of a path between its separators, empty ones included.\<close>

definition splitSep :: "string \<Rightarrow> string list" where
  "splitSep p = splitOn Separator p"

text \<open>\<open>strings.Join(elems, "/")\<close>.\<close>

fun joinSep :: "string list \<Rightarrow> string" where
  "joinSep [] = []"
| "joinSep [e] = e"
| "joinSep (e # es) = e @ Separator # joinSep es"

definition rooted :: "string \<Rightarrow> bool" where
  "rooted p = (case p of [] \<Rightarrow> False | c # _ \<Rightarrow> IsPathSeparator c)"

text \<open>
  One element of \<open>Clean\<close>'s loop. The elements written so far are kept last first;
  \<open>..\<close> can backtrack exactly when the last element written is a real one.
\<close>

definition cleanStep :: "bool \<Rightarrow> string list \<Rightarrow> string \<Rightarrow> string list" where
  "cleanStep rt out e =
     (if e = [] then out
      else if e = ''.'' then out
      else if e = ''..'' then
        (case out of
           [] \<Rightarrow> (if rt then out else [e])
         | l # ls \<Rightarrow> (if l \<noteq> ''..'' then ls else if rt then out else e # out))
      else e # out)"

definition cleanElems :: "string \<Rightarrow> string list" where
  "cleanElems p = rev (foldl (cleanStep (rooted p)) [] (splitSep p))"

definition render :: "bool \<Rightarrow> string list \<Rightarrow> string" where
  "render rt es = (if rt then Separator # joinSep es else if es = [] then ''.'' else joinSep es)"

definition Clean :: "string \<Rightarrow> string" where
  "Clean p = render (rooted p) (cleanElems p)"

text \<open>
  The form of what \<open>Clean\<close>'s loop has written, last element first: real elements,
  free of separators, above a block of \<open>..\<close> elements that only a path that is not
  rooted can have.
\<close>

fun nfOut :: "bool \<Rightarrow> string list \<Rightarrow> bool" where
  "nfOut rt [] = True"
| "nfOut rt (e # out) =
     (if e = ''..'' then \<not> rt \<and> set out \<subseteq> {''..''}
      else e \<noteq> [] \<and> e \<noteq> ''.'' \<and> Separator \<notin> set e \<and> nfOut rt out)"

definition IsAbs :: "string \<Rightarrow> bool" where
  "IsAbs p = HasPrefix p ''/''"

text \<open>On these targets \<open>ToSlash\<close> returns its argument: the separator already is \<open>/\<close>.\<close>

definition ToSlash :: "string \<Rightarrow> string" where
  "ToSlash p = (if Separator = CHR ''/'' then p
                else map (\<lambda>c. if c = Separator then CHR ''/'' else c) p)"

text \<open>
  \<open>Join\<close>: the elements from the first non-empty one on are joined by the separator and
  cleaned; with no non-empty element the result is the empty string.
\<close>

fun Join :: "string list \<Rightarrow> string" where
  "Join [] = []"
| "Join (e # es) = (if e \<noteq> [] then Clean (joinSep (e # es)) else Join es)"

text \<open>\<open>Dir\<close>: everything up to the last separator, cleaned.\<close>

definition uptoLastSep :: "string \<Rightarrow> string" where
  "uptoLastSep p = rev (dropWhile (\<lambda>c. \<not> IsPathSeparator c) (rev p))"

definition Dir :: "string \<Rightarrow> string" where
  "Dir p = Clean (uptoLastSep p)"

text \<open>
  \<open>Base\<close>: the last element, trailing separators stripped first; \<open>.\<close> for the empty
  path and the separator for a path of separators only.
\<close>

definition Base :: "string \<Rightarrow> string" where
  "Base p =
     (if p = [] then ''.''
      else let q = rev (dropWhile IsPathSeparator (rev p));
               b = rev (takeWhile (\<lambda>c. \<not> IsPathSeparator c) (rev q))
           in if b = [] then [Separator] else b)"

text \<open>
  \<open>Ext\<close>: the suffix of the last element that starts at its last dot, empty when the
  last element has no dot.
\<close>

definition Ext :: "string \<Rightarrow> string" where
  "Ext p =
     (let l = rev (takeWhile (\<lambda>c. \<not> IsPathSeparator c) (rev p))
      in if CHR ''.'' \<in> set l
         then CHR ''.'' # rev (takeWhile (\<lambda>c. c \<noteq> CHR ''.'') (rev l))
         else [])"

text \<open>
  \<open>Abs\<close>: an absolute path is cleaned; any other path is joined to the working
  directory, and the error of \<open>os.Getwd\<close> is returned when there is none.
\<close>

definition Abs :: "(error + string) \<Rightarrow> string \<Rightarrow> error + string" where
  "Abs getwd p =
     (if IsAbs p then Inr (Clean p)
      else (case getwd of Inl e \<Rightarrow> Inl e | Inr wd \<Rightarrow> Inr (Join [wd, p])))"

text \<open>
  \<open>Rel\<close> walks over the leading elements that the cleaned base and target share:
  \<open>b\<close> and \<open>t\<close> are what is left of them from the element under comparison on. The
  walk stops when one of them is used up or at the first pair of elements that differ,
  and returns both rests and the element of the base it stopped at: the first element
  of what is left of the base, empty when the base is used up.
\<close>

function relLoop :: "string \<Rightarrow> string \<Rightarrow> string \<times> string \<times> string" where
  "relLoop b t =
     (if b = [] \<or> t = [] then (b, t, takeWhile (\<lambda>c. c \<noteq> Separator) b)
      else let bc = takeWhile (\<lambda>c. c \<noteq> Separator) b;
               tc = takeWhile (\<lambda>c. c \<noteq> Separator) t
           in if tc \<noteq> bc then (b, t, bc)
              else relLoop (drop (Suc (length bc)) b) (drop (Suc (length tc)) t))"
  by pat_completeness auto
termination
  by (relation "measure (\<lambda>(b, t). length b)") auto

declare relLoop.simps [simp del]

text \<open>
  \<open>Rel(basepath, targpath)\<close>: equal cleaned paths give \<open>.\<close>; a rooted path and one that
  is not cannot be related; otherwise every element left of the base becomes \<open>..\<close> and
  the rest of the target follows. A base whose first element after the shared ones is
  \<open>..\<close> cannot be left lexically, whether the target goes on or is used up:
  \<open>Rel("..", "a")\<close> and \<open>Rel("../..", "..")\<close> are errors.
\<close>

definition relError :: "string \<Rightarrow> string \<Rightarrow> error" where
  "relError basepath targpath =
     Err (''Rel: can't make '' @ targpath @ '' relative to '' @ basepath)"

definition Rel :: "string \<Rightarrow> string \<Rightarrow> error + string" where
  "Rel basepath targpath =
     (let base = Clean basepath; targ = Clean targpath in
      if targ = base then Inr ''.''
      else let base = (if base = ''.'' then [] else base) in
        if rooted base \<noteq> rooted targ then Inl (relError basepath targpath)
        else (case relLoop base targ of (b, t, bc) \<Rightarrow>
          if bc = ''..'' then Inl (relError basepath targpath)
          else if b \<noteq> [] then
            Inr (''..'' @ concat (replicate (count_list b Separator) (Separator # ''..''))
                 @ (if t \<noteq> [] then Separator # t else []))
          else Inr t))"

section \<open>Function helpers of the stack model (pkg/stack/function_helpers.go)\<close>

text \<open>
  The \<open>Function\<close> and \<open>Stack\<close> structs are declared in another file of the package;
  the records below carry the fields that \<open>function_helpers.go\<close> reads. Go strings are
  byte sequences, modelled as \<open>string\<close>; the empty string is \<open>[]\<close>.
\<close>

record Function =
  name :: string
  Handler :: string
  Version :: string
  Tag :: string
  contextDirectory :: string

record Stack =
  Name :: string

definition DefaulMembraneVersion :: string where
  "DefaulMembraneVersion = ''v0.0.1-rc.3''"

definition Function_Name :: "Function \<Rightarrow> string" where
  "Function_Name f = name f"

definition VersionString :: "Function \<Rightarrow> Stack \<Rightarrow> string" where
  "VersionString f s = (if Version f \<noteq> [] then Version f else DefaulMembraneVersion)"

definition ContextDirectory :: "Function \<Rightarrow> string" where
  "ContextDirectory f = contextDirectory f"

text \<open>
  \<open>ImageTagName\<close>: an explicit tag wins; otherwise
  \<open>fmt.Sprintf("%s-%s%s", s.Name, f.Name(), providerString)\<close>, where
  \<open>providerString\<close> is \<open>"-" + provider\<close> for a non-empty provider and empty otherwise.
\<close>

definition ImageTagName :: "Function \<Rightarrow> Stack \<Rightarrow> string \<Rightarrow> string" where
  "ImageTagName f s provider =
     (if Tag f \<noteq> [] then Tag f
      else let providerString = (if provider \<noteq> [] then ''-'' @ provider else [])
           in Name s @ ''-'' @ Function_Name f @ providerString)"

section \<open>Language runtimes (package runtime)\<close>

text \<open>
  What the runtimes read from the machine they run on: the working directory
  (\<open>os.Getwd\<close>), the Go module of a directory and the Go path (\<open>utils.GoModule\<close>
  and \<open>utils.GoPath\<close>, helpers of package \<open>utils\<close> that query the Go toolchain),
  and the operating system name \<open>runtime.GOOS\<close>, read only for the polling flag.
\<close>

record host =
  Getwd :: "error + string"
  GoModule :: "string \<Rightarrow> error + string"
  GoPath :: "error + string"
  GOOS :: string

text \<open>
  The two runtime structs have the same fields, the runtime extension and the handler
  path; the \<open>Runtime\<close> interface value is one of them.
\<close>

datatype Runtime =
    golang (rte: string) (handler: string)
  | python (rte: string) (handler: string)

record Mount =
  Type :: string
  Source :: string
  Target :: string

record LaunchOpts =
  Image :: string
  TargetWD :: string
  Entrypoint :: "string list"
  Cmd :: "string list"
  Mounts :: "Mount list"

definition DevImageName :: "Runtime \<Rightarrow> string" where
  "DevImageName t = ''nitric-'' @ rte t @ ''-dev''"

text \<open>
  \<open>BuildIgnore\<close>. The package variable \<open>commonIgnore\<close> is declared in another file
  of the package and is a parameter here.
\<close>

fun BuildIgnore :: "string list \<Rightarrow> Runtime \<Rightarrow> string list" where
  "BuildIgnore commonIgnore (golang r h) = []"
| "BuildIgnore commonIgnore (python r h) =
     commonIgnore @ [''__pycache__/'', ''*.py[cod]'', ''*$py.class'']"

fun ContainerName :: "host \<Rightarrow> Runtime \<Rightarrow> string" where
  "ContainerName hst (golang r h) =
     (case Abs (Getwd hst) h of
        Inl err \<Rightarrow> []
      | Inr absH \<Rightarrow> Base (Dir absH))"
| "ContainerName hst (python r h) = Replace1 (Base h) (Ext h) []"

text \<open>
  The handler path relative to the run context, as \<open>golang.LaunchOptsForFunction\<close>
  computes it: \<open>Rel\<close> is asked only when the handler text starts with the run context.
\<close>

definition relHandler :: "string \<Rightarrow> string \<Rightarrow> error + string" where
  "relHandler runCtx h = (if HasPrefix h runCtx then Rel runCtx h else Inr h)"

text \<open>
  A handler lies inside a run context, lexically: both are rooted or both are not, and
  the cleaned handler consists of the elements of the cleaned run context followed by
  elements that do not lead up again.
\<close>

definition inside :: "string \<Rightarrow> string \<Rightarrow> bool" where
  "inside runCtx h =
     (rooted runCtx = rooted h
      \<and> prefix (cleanElems runCtx) (cleanElems h)
      \<and> ''..'' \<notin> set (drop (length (cleanElems runCtx)) (cleanElems h)))"

text \<open>
  The launch options. Beside an error the code returns the zero \<open>LaunchOpts{}\<close>; in
  the sum type only the error is left.
\<close>

definition polling :: "host \<Rightarrow> string" where
  "polling hst = ''-polling='' @ (if GOOS hst = ''windows'' then ''true'' else ''false'')"

fun LaunchOptsForFunctionCollect :: "host \<Rightarrow> Runtime \<Rightarrow> string \<Rightarrow> error + LaunchOpts" where
  "LaunchOptsForFunctionCollect hst (golang r h) runCtx =
     (case GoModule hst runCtx of
        Inl err \<Rightarrow> Inl err
      | Inr module \<Rightarrow>
          (case GoPath hst of
             Inl err \<Rightarrow> Inl err
           | Inr goPath \<Rightarrow>
               Inr \<lparr>Image = DevImageName (golang r h),
                    TargetWD = ToSlash (Join [''/go/src'', module]),
                    Entrypoint = [],
                    Cmd = [''go'', ''run'', ''./'' @ ToSlash (Dir h) @ ''/...''],
                    Mounts =
                      [\<lparr>Type = ''bind'', Source = Join [goPath, ''pkg''], Target = ''/go/pkg''\<rparr>,
                       \<lparr>Type = ''bind'', Source = runCtx,
                        Target = ToSlash (Join [''/go/src'', module])\<rparr>]\<rparr>))"
| "LaunchOptsForFunctionCollect hst (python r h) runCtx =
     Inr \<lparr>Image = DevImageName (python r h),
          TargetWD = ''/app'',
          Entrypoint = [''python''],
          Cmd = [''/app/'' @ ToSlash h],
          Mounts = [\<lparr>Type = ''bind'', Source = runCtx, Target = ''/app''\<rparr>]\<rparr>"

fun LaunchOptsForFunction :: "host \<Rightarrow> Runtime \<Rightarrow> string \<Rightarrow> error + LaunchOpts" where
  "LaunchOptsForFunction hst (golang r h) runCtx =
     (case GoModule hst runCtx of
        Inl err \<Rightarrow> Inl err
      | Inr module \<Rightarrow>
          (let containerRunCtx = ToSlash (Join [''/go/src'', module]) in
           case relHandler runCtx h of
             Inl err \<Rightarrow> Inl err
           | Inr rel \<Rightarrow>
               (case GoPath hst of
                  Inl err \<Rightarrow> Inl err
                | Inr goPath \<Rightarrow>
                    Inr \<lparr>Image = [],
                         TargetWD = containerRunCtx,
                         Entrypoint = [],
                         Cmd = [''/go/bin/CompileDaemon'',
                                ''-verbose'',
                                ''-exclude-dir=.git'',
                                ''-exclude-dir=.nitric'',
                                ''-directory=.'',
                                polling hst,
                                ''-build=go build -buildvcs=false -o ''
                                  @ ContainerName hst (golang r h) @ '' ./''
                                  @ ToSlash (Dir rel) @ ''/...'',
                                ''-command=./'' @ ContainerName hst (golang r h)],
                         Mounts =
                           [\<lparr>Type = ''bind'', Source = Join [goPath, ''pkg''],
                             Target = ''/go/pkg''\<rparr>,
                            \<lparr>Type = ''bind'', Source = runCtx, Target = containerRunCtx\<rparr>]\<rparr>)))"
| "LaunchOptsForFunction hst (python r h) runCtx =
     Inr \<lparr>Image = DevImageName (python r h),
          TargetWD = ''/app'',
          Entrypoint = [''python''],
          Cmd = [''-m'', ''jurigged'', ''-v'', ''/app/'' @ ToSlash h],
          Mounts = [\<lparr>Type = ''bind'', Source = runCtx, Target = ''/app''\<rparr>]\<rparr>"

section \<open>Production build recipes\<close>


text \<open>
  The python runtime and the javascript generator drive the statement builder of the
  boxygen library, which is outside the repository. The builder only appends: a
  container state is modelled by the statements it has been given, in order. The
  builder's own failures (of \<open>NewContainer\<close> and of \<open>Copy\<close>) are parameters.
  \<open>Other\<close> stands for a statement of the builder that these files do not issue
  themselves, by its line.
\<close>

record NewContainerOpts =
  From :: string
  As :: string
  Ignore :: "string list"

record ConfigOptions =
  WorkingDir :: string
  Env :: "(string \<times> string) list"
  Ports :: "int list"
  Cmd_config :: "string list"

datatype statement =
    FromStmt NewContainerOpts
  | Run "string list"
  | Copy string string
  | Config ConfigOptions
  | Other string

record builder =
  newContainerErr :: "NewContainerOpts \<Rightarrow> error option"
  copyErr :: "string \<Rightarrow> string \<Rightarrow> error option"

definition noConfig :: ConfigOptions where
  "noConfig = \<lparr>WorkingDir = [], Env = [], Ports = [], Cmd_config = []\<rparr>"

text \<open>
  What is handed to the writer: the golang text as it is, or
  \<open>strings.Join(con.Lines(), "\n")\<close> of a container state, kept as the statements of
  that state.
\<close>

datatype recipe = Text string | Statements "statement list"

text \<open>
  What the production recipes take from outside: the builder's failures, and from
  other files of the package the constant \<open>layerFinal\<close>, the variable
  \<open>commonIgnore\<close> and the helpers \<open>membraneUrl\<close> and \<open>withMembrane\<close>. Nothing is
  fixed about the body of \<open>withMembrane(con, version, provider)\<close>: since the builder
  only appends, what the helper does to a container is the list of statements it adds
  for a version and a provider, and that list is the parameter.
\<close>

record package =
  bld :: builder
  layerFinal :: string
  commonIgnore :: "string list"
  membraneUrl :: "string \<Rightarrow> string \<Rightarrow> string"
  withMembrane :: "string \<Rightarrow> string \<Rightarrow> statement list"


text \<open>
  \<open>javascriptGenerator\<close> does not look at what \<open>Copy\<close> returns. The builder only
  appends, so a copy it refuses adds nothing to the container.
\<close>

definition copyUnchecked :: "builder \<Rightarrow> statement list \<Rightarrow> string \<Rightarrow> string \<Rightarrow> statement list" where
  "copyUnchecked b con src dest =
     (case copyErr b src dest of Some err \<Rightarrow> con | None \<Rightarrow> con @ [Copy src dest])"

definition javascriptGenerator ::
  "package \<Rightarrow> Function \<Rightarrow> string \<Rightarrow> string \<Rightarrow> error + recipe" where
  "javascriptGenerator pkg f version provider =
     (let opts = \<lparr>From = ''node:alpine'', As = [],
                  Ignore = [''node_modules/'', ''.nitric/'', ''.git/'', ''.idea/'']\<rparr> in
      case newContainerErr (bld pkg) opts of
        Some err \<Rightarrow> Inl err
      | None \<Rightarrow>
         (let con = [FromStmt opts];
              con = con @ withMembrane pkg version provider;
              con = copyUnchecked (bld pkg) con ''package.json *.lock *-lock.json'' ''/'';
              con = con @ [Run [''yarn'', ''import'', ''||'', ''echo'', ''Lockfile already exists'']];
              con = con @ [Run [''set'', ''-ex;'',
                                ''yarn'', ''install'', ''--production'', ''--frozen-lockfile'',
                                ''--cache-folder'', ''/tmp/.cache;'',
                                ''rm'', ''-rf'', ''/tmp/.cache;'']];
              con = copyUnchecked (bld pkg) con ''.'' ''.'';
              con = con @ [Config (noConfig\<lparr>Cmd_config := [''node'', Handler f]\<rparr>)]
          in Inr (Statements con)))"

text \<open>
  What a production recipe is asked to contain: a statement exposing port 9001, the copy
  of the whole build context, and the reference to the sidecar for the version and the
  provider. In the golang text these are the lines \<open>EXPOSE 9001\<close> and \<open>COPY . .\<close>
  and an occurrence of the URL \<open>membraneUrl(version, provider)\<close>. In a statement stream
  they are a \<open>Config\<close> with the port, the \<open>Copy\<close> of \<open>.\<close> to \<open>.\<close>, and the statements
  that \<open>withMembrane\<close> adds for that version and provider, unbroken.
\<close>

fun exposes :: "int \<Rightarrow> statement \<Rightarrow> bool" where
  "exposes n (Config c) = (n \<in> set (Ports c))"
| "exposes n (FromStmt v) = False"
| "exposes n (Run v) = False"
| "exposes n (Copy u v) = False"
| "exposes n (Other v) = False"

fun exposes9001 :: "recipe \<Rightarrow> bool" where
  "exposes9001 (Text s) = (''EXPOSE 9001'' \<in> set (textLines s))"
| "exposes9001 (Statements con) = list_ex (exposes 9001) con"

fun copiesContext :: "recipe \<Rightarrow> bool" where
  "copiesContext (Text s) = (''COPY . .'' \<in> set (textLines s))"
| "copiesContext (Statements con) = (Copy ''.'' ''.'' \<in> set con)"

fun refersToSidecar :: "package \<Rightarrow> string \<Rightarrow> string \<Rightarrow> recipe \<Rightarrow> bool" where
  "refersToSidecar pkg version provider (Text s) = Contains s (membraneUrl pkg version provider)"
| "refersToSidecar pkg version provider (Statements con) =
     sublist (withMembrane pkg version provider) con"

text \<open>A builder that accepts every statement.\<close>

definition acceptAll :: builder where
  "acceptAll = \<lparr>newContainerErr = (\<lambda>opts. None), copyErr = (\<lambda>src dest. None)\<rparr>"

section \<open>Container engines (package containerengine)\<close>

text \<open>
  Values of the Docker SDK that the engine only passes on are left abstract. The result
  of \<open>ContainerWait\<close>, a pair of channels of which exactly one delivers, is modelled by
  what is delivered: the wait's error or the exit status; a log stream by its text.
\<close>

typedecl Image
typedecl ImagePullOptions
typedecl ContainerConfig
typedecl HostConfig
typedecl NetworkingConfig
typedecl Duration
typedecl WaitCondition
typedecl ContainerLogsOptions

record LogConfig =
  Type_log :: string
  Config_log :: "(string \<times> string) list"

text \<open>
  A \<open>ContainerLogger\<close> is the struct behind the interface value: the \<open>jsonfile\<close> of
  this file, or a logger of another type \<open>'l\<close> (the native engine's).
\<close>

datatype 'l ContainerLogger = jsonfile (logPath: string) | otherLogger 'l

definition jsonfile_Config :: "string \<Rightarrow> LogConfig" where
  "jsonfile_Config lp = \<lparr>Type_log = ''json-file'', Config_log = [(''path'', lp)]\<rparr>"

definition jsonfile_Stop :: "string \<Rightarrow> error option" where
  "jsonfile_Stop lp = None"

definition jsonfile_Start :: "string \<Rightarrow> error option" where
  "jsonfile_Start lp = None"

text \<open>
  The native engine holds the API client; its methods are defined in another file of
  the package and are a parameter: one function per method, from the engine, the arguments and the
  state of the backend \<open>'w\<close> to the result and the new state.
\<close>

record 'c docker =
  cli :: 'c

record ('c, 'w, 'l) dockerMethods =
  docker_Version :: "'c docker \<Rightarrow> 'w \<Rightarrow> string \<times> 'w"
  docker_ListImages :: "'c docker \<Rightarrow> string \<Rightarrow> string \<Rightarrow> 'w \<Rightarrow> (error + Image list) \<times> 'w"
  docker_ImagePull :: "'c docker \<Rightarrow> string \<Rightarrow> ImagePullOptions \<Rightarrow> 'w \<Rightarrow> error option \<times> 'w"
  docker_ContainerCreate ::
    "'c docker \<Rightarrow> ContainerConfig \<Rightarrow> HostConfig \<Rightarrow> NetworkingConfig \<Rightarrow> string \<Rightarrow> 'w
       \<Rightarrow> (error + string) \<times> 'w"
  docker_Start :: "'c docker \<Rightarrow> string \<Rightarrow> 'w \<Rightarrow> error option \<times> 'w"
  docker_Stop :: "'c docker \<Rightarrow> string \<Rightarrow> Duration option \<Rightarrow> 'w \<Rightarrow> error option \<times> 'w"
  docker_ContainerWait :: "'c docker \<Rightarrow> string \<Rightarrow> WaitCondition \<Rightarrow> 'w \<Rightarrow> (error + int) \<times> 'w"
  docker_RemoveByLabel :: "'c docker \<Rightarrow> (string \<times> string) list \<Rightarrow> 'w \<Rightarrow> error option \<times> 'w"
  docker_ContainerLogs ::
    "'c docker \<Rightarrow> string \<Rightarrow> ContainerLogsOptions \<Rightarrow> 'w \<Rightarrow> (error + string) \<times> 'w"
  docker_Logger :: "'c docker \<Rightarrow> string \<Rightarrow> 'w \<Rightarrow> 'l ContainerLogger \<times> 'w"

text \<open>The delegating engine embeds the native one.\<close>

record 'c podman =
  docker :: "'c docker"

text \<open>
  What \<open>newPodman\<close> finds on the machine, in the order it asks: the outcome of running
  \<open>podman --version\<close>, the outcome and the standard output of \<open>docker --version\<close>, the
  API client built from the environment, and the outcome of the test call
  \<open>ContainerList\<close> on that client.
\<close>

record 'c probes =
  podmanVersion :: "error option"
  dockerVersion :: "error option \<times> string"
  newClient :: "error + 'c"
  containerList :: "'c \<Rightarrow> error option"

text \<open>\<open>newPodman\<close> returns the engine or the error, and the lines it printed.\<close>

definition newPodman :: "'c probes \<Rightarrow> (error + 'c podman) \<times> string list" where
  "newPodman pr =
     (case podmanVersion pr of
        Some err \<Rightarrow> (Inl err, [])
      | None \<Rightarrow>
         (case dockerVersion pr of
            (Some err, out) \<Rightarrow> (Inl (WithMessage err ''the podman-docker package is required''), [])
          | (None, out) \<Rightarrow>
             if \<not> Contains out ''podman''
             then (Inl (Err ''both podman and docker found, will use docker''), [])
             else (case newClient pr of
                     Inl err \<Rightarrow> (Inl err, [])
                   | Inr c \<Rightarrow>
                      (case containerList pr c of
                         Some err \<Rightarrow>
                           (Inl err, [''podman socket not running, please execute ''
                                      @ [CHR 0x27] @ ''sudo systemctl start podman.socket''
                                      @ [CHR 0x27]])
                       | None \<Rightarrow> (Inr \<lparr>docker = \<lparr>cli = c\<rparr>\<rparr>, [''podman found''])))))"

definition podman_Type :: "'c podman \<Rightarrow> string" where
  "podman_Type p = ''podman''"

definition podman_Version :: "('c, 'w, 'l) dockerMethods \<Rightarrow> 'c podman \<Rightarrow> 'w \<Rightarrow> string \<times> 'w" where
  "podman_Version D p = docker_Version D (docker p)"

text \<open>
  The command line of \<open>podman.Build\<close>. The build arguments are a Go map; \<open>buildArgs\<close>
  lists its entries in the order the \<open>range\<close> loop visits them (Go leaves the order
  open). Each entry adds \<open>--build-arg\<close> and \<open>fmt.Sprint("%s=%s", k, v)\<close>.
\<close>

definition podmanBuildArgs ::
  "(string \<Rightarrow> string) \<Rightarrow> string \<Rightarrow> string \<Rightarrow> string \<Rightarrow> (string \<times> string) list \<Rightarrow> string list" where
  "podmanBuildArgs unicodeLower dockerfile path imageTag buildArgs =
     foldl (\<lambda>args (k, v). args @ [''--build-arg'', Sprint [''%s=%s'', k, v]])
       [''build'', path, ''-f'', dockerfile, ''-t'', ToLower unicodeLower imageTag] buildArgs"

text \<open>
  \<open>podman.Build\<close> starts \<open>podman\<close> with these arguments and waits for it; \<open>start\<close> and
  \<open>wait\<close> stand for the two calls on the command (the output is copied to the terminal
  by a goroutine and is not part of the result), \<open>toLowerRunes\<close> for the Unicode
  mapping of \<open>strings.ToLower\<close>.
\<close>

record 'w process =
  start :: "string \<Rightarrow> string list \<Rightarrow> 'w \<Rightarrow> error option \<times> 'w"
  wait :: "string \<Rightarrow> string list \<Rightarrow> 'w \<Rightarrow> error option \<times> 'w"
  toLowerRunes :: "string \<Rightarrow> string"

definition podman_Build ::
  "'w process \<Rightarrow> 'c podman \<Rightarrow> string \<Rightarrow> string \<Rightarrow> string \<Rightarrow> (string \<times> string) list \<Rightarrow>
     string list \<Rightarrow> 'w \<Rightarrow> error option \<times> 'w" where
  "podman_Build os p dockerfile path imageTag buildArgs excludes w =
     (let args = podmanBuildArgs (toLowerRunes os) dockerfile path imageTag buildArgs in
      case start os ''podman'' args w of
        (Some err, w') \<Rightarrow> (Some err, w')
      | (None, w') \<Rightarrow> wait os ''podman'' args w')"

definition podman_ListImages ::
  "('c, 'w, 'l) dockerMethods \<Rightarrow> 'c podman \<Rightarrow> string \<Rightarrow> string \<Rightarrow> 'w \<Rightarrow> (error + Image list) \<times> 'w" where
  "podman_ListImages D p stackName containerName = docker_ListImages D (docker p) stackName containerName"

definition podman_ImagePull ::
  "('c, 'w, 'l) dockerMethods \<Rightarrow> 'c podman \<Rightarrow> string \<Rightarrow> ImagePullOptions \<Rightarrow> 'w \<Rightarrow> error option \<times> 'w" where
  "podman_ImagePull D p rawImage opts = docker_ImagePull D (docker p) rawImage opts"

definition podman_ContainerCreate ::
  "('c, 'w, 'l) dockerMethods \<Rightarrow> 'c podman \<Rightarrow> ContainerConfig \<Rightarrow> HostConfig \<Rightarrow> NetworkingConfig \<Rightarrow>
     string \<Rightarrow> 'w \<Rightarrow> (error + string) \<times> 'w" where
  "podman_ContainerCreate D p config hostConfig networkingConfig nm =
     docker_ContainerCreate D (docker p) config hostConfig networkingConfig nm"

definition podman_Start ::
  "('c, 'w, 'l) dockerMethods \<Rightarrow> 'c podman \<Rightarrow> string \<Rightarrow> 'w \<Rightarrow> error option \<times> 'w" where
  "podman_Start D p nameOrID = docker_Start D (docker p) nameOrID"

definition podman_Stop ::
  "('c, 'w, 'l) dockerMethods \<Rightarrow> 'c podman \<Rightarrow> string \<Rightarrow> Duration option \<Rightarrow> 'w \<Rightarrow> error option \<times> 'w" where
  "podman_Stop D p nameOrID timeout = docker_Stop D (docker p) nameOrID timeout"

definition podman_ContainerWait ::
  "('c, 'w, 'l) dockerMethods \<Rightarrow> 'c podman \<Rightarrow> string \<Rightarrow> WaitCondition \<Rightarrow> 'w \<Rightarrow> (error + int) \<times> 'w" where
  "podman_ContainerWait D p containerID condition = docker_ContainerWait D (docker p) containerID condition"

definition podman_RemoveByLabel ::
  "('c, 'w, 'l) dockerMethods \<Rightarrow> 'c podman \<Rightarrow> (string \<times> string) list \<Rightarrow> 'w \<Rightarrow> error option \<times> 'w" where
  "podman_RemoveByLabel D p labels = docker_RemoveByLabel D (docker p) labels"

definition podman_ContainerLogs ::
  "('c, 'w, 'l) dockerMethods \<Rightarrow> 'c podman \<Rightarrow> string \<Rightarrow> ContainerLogsOptions \<Rightarrow> 'w \<Rightarrow>
     (error + string) \<times> 'w" where
  "podman_ContainerLogs D p containerID opts = docker_ContainerLogs D (docker p) containerID opts"

text \<open>
  \<open>podman.Logger\<close> does not ask the embedded engine: it takes the log file path from
  \<open>utils.NewNitricLogFile\<close> (a helper of package \<open>utils\<close>, the parameter
  \<open>newNitricLogFile\<close>, which returns a path and an error and may change the file
  system), drops the error, and returns a \<open>jsonfile\<close> logger for that path.
\<close>

definition podman_Logger ::
  "(string \<Rightarrow> 'w \<Rightarrow> (string \<times> error option) \<times> 'w) \<Rightarrow> 'c podman \<Rightarrow> string \<Rightarrow> 'w \<Rightarrow>
     'l ContainerLogger \<times> 'w" where
  "podman_Logger newNitricLogFile p stackPath w =
     (case newNitricLogFile stackPath w of ((lp, err), w') \<Rightarrow> (jsonfile lp, w'))"

section \<open>Example inputs\<close>

text \<open>
  A development machine with a Go toolchain, on which the project in
  \<open>/home/dev/shop\<close> is the module \<open>github.com/dev/shop\<close>.
\<close>

definition devHost :: host where
  "devHost = \<lparr>Getwd = Inr ''/home/dev/shop'',
              GoModule = (\<lambda>d. Inr ''github.com/dev/shop''),
              GoPath = Inr ''/home/dev/go'', GOOS = ''linux''\<rparr>"

text \<open>
  A native engine whose backend cannot be reached: every call fails, and its logger is
  a logger of its own.
\<close>

definition offlineDocker :: "(unit, unit, string) dockerMethods" where
  "offlineDocker =
     \<lparr>docker_Version = (\<lambda>d w. ([], w)),
      docker_ListImages = (\<lambda>d stackName containerName w. (Inl (Err ''not connected''), w)),
      docker_ImagePull = (\<lambda>d rawImage opts w. (Some (Err ''not connected''), w)),
      docker_ContainerCreate = (\<lambda>d config hostConfig networkingConfig nm w.
         (Inl (Err ''not connected''), w)),
      docker_Start = (\<lambda>d nameOrID w. (Some (Err ''not connected''), w)),
      docker_Stop = (\<lambda>d nameOrID timeout w. (Some (Err ''not connected''), w)),
      docker_ContainerWait = (\<lambda>d containerID condition w. (Inl (Err ''not connected''), w)),
      docker_RemoveByLabel = (\<lambda>d labels w. (Some (Err ''not connected''), w)),
      docker_ContainerLogs = (\<lambda>d containerID opts w. (Inl (Err ''not connected''), w)),
      docker_Logger = (\<lambda>d stackPath w. (otherLogger ''syslog'', w))\<rparr>"

text \<open>A log file helper that puts the log under the stack directory.\<close>

definition logFileIn :: "string \<Rightarrow> unit \<Rightarrow> (string \<times> error option) \<times> unit" where
  "logFileIn stackPath w = ((stackPath @ ''/.nitric/run.log'', None), w)"

text \<open>
  A package state whose builder accepts every statement, with a baseline ignore list, a
  sidecar URL made of the version and the provider, and a \<open>withMembrane\<close> that adds
  one statement fetching the sidecar from that URL.
\<close>

definition exampleUrl :: "string \<Rightarrow> string \<Rightarrow> string" where
  "exampleUrl version provider =
     ''https://example.org/membrane/'' @ version @ ''/membrane-'' @ provider"

definition examplePackage :: package where
  "examplePackage =
     \<lparr>bld = acceptAll, layerFinal = ''layer-final'',
      commonIgnore = [''.nitric/'', ''.git/'', ''.idea/''],
      membraneUrl = exampleUrl,
      withMembrane = (\<lambda>version provider.
         [Other (''ADD '' @ exampleUrl version provider @ '' /usr/local/bin/membrane'')])\<rparr>"

definition exampleFunction :: Function where
  "exampleFunction = \<lparr>name = ''hello'', Handler = ''functions/hello.js'', Version = [],
       Tag = [], contextDirectory = ''.''\<rparr>"

section \<open>Image tag names\<close>

text \<open>
  C10. A non-empty explicit \<open>Tag\<close> is returned unchanged whatever the stack and the
  provider are; with an empty \<open>Tag\<close> the result is \<open>stackName-functionName-provider\<close>
  for a non-empty provider and \<open>stackName-functionName\<close>, with no trailing separator,
  for the empty provider.
\<close>

theorem ImageTagName_cases:
  "ImageTagName f s provider =
     (if Tag f \<noteq> [] then Tag f
      else if provider \<noteq> [] then Name s @ ''-'' @ name f @ ''-'' @ provider
      else Name s @ ''-'' @ name f)"
  by (simp add: ImageTagName_def Function_Name_def)

theorem ImageTagName_cases_witness:
  "ImageTagName \<lparr>name = ''hello'', Handler = ''functions/hello.py'', Version = [],
       Tag = [], contextDirectory = ''.''\<rparr> \<lparr>Name = ''shop''\<rparr> ''aws'' = ''shop-hello-aws''"
  using ImageTagName_cases [of "\<lparr>name = ''hello'', Handler = ''functions/hello.py'', Version = [],
       Tag = [], contextDirectory = ''.''\<rparr>" "\<lparr>Name = ''shop''\<rparr>" "''aws''"]
  by simp

section \<open>Launch options\<close>

text \<open>
  C7. For the python runtime with handler \<open>functions/hello.py\<close> and any run context,
  \<open>LaunchOptsForFunction\<close> succeeds with the command
  \<open>["-m", "jurigged", "-v", "/app/functions/hello.py"]\<close>, the target working directory
  \<open>/app\<close> and the single bind mount from the run context to \<open>/app\<close>.
\<close>

theorem python_LaunchOptsForFunction_hello:
  "LaunchOptsForFunction hst (python r ''functions/hello.py'') runCtx =
     Inr \<lparr>Image = ''nitric-'' @ r @ ''-dev'',
          TargetWD = ''/app'',
          Entrypoint = [''python''],
          Cmd = [''-m'', ''jurigged'', ''-v'', ''/app/functions/hello.py''],
          Mounts = [\<lparr>Type = ''bind'', Source = runCtx, Target = ''/app''\<rparr>]\<rparr>"
  by (simp add: ToSlash_def Separator_def DevImageName_def)

theorem python_LaunchOptsForFunction_hello_witness:
  "Cmd (projr (LaunchOptsForFunction
          \<lparr>Getwd = Inr ''/home/dev/shop'', GoModule = (\<lambda>d. Inl (Err ''no go.mod'')),
           GoPath = Inl (Err ''no go''), GOOS = ''linux''\<rparr>
          (python ''python'' ''functions/hello.py'') ''/home/dev/shop''))
     = [''-m'', ''jurigged'', ''-v'', ''/app/functions/hello.py'']"
  using python_LaunchOptsForFunction_hello
    [of "\<lparr>Getwd = Inr ''/home/dev/shop'', GoModule = (\<lambda>d. Inl (Err ''no go.mod'')),
           GoPath = Inl (Err ''no go''), GOOS = ''linux''\<rparr>" "''python''" "''/home/dev/shop''"]
  by simp

lemma devHost_launch:
  "LaunchOptsForFunction devHost (golang ''go'' ''functions/hello/main.go'') ''/home/dev/shop''
   = Inr \<lparr>Image = [],
          TargetWD = ''/go/src/github.com/dev/shop'',
          Entrypoint = [],
          Cmd = [''/go/bin/CompileDaemon'', ''-verbose'', ''-exclude-dir=.git'',
                 ''-exclude-dir=.nitric'', ''-directory=.'', ''-polling=false'',
                 ''-build=go build -buildvcs=false -o hello ./functions/hello/...'',
                 ''-command=./hello''],
          Mounts = [\<lparr>Type = ''bind'', Source = ''/home/dev/go/pkg'', Target = ''/go/pkg''\<rparr>,
                    \<lparr>Type = ''bind'', Source = ''/home/dev/shop'',
                     Target = ''/go/src/github.com/dev/shop''\<rparr>]\<rparr>"
  by code_simp

lemma devHost_collect:
  "LaunchOptsForFunctionCollect devHost (golang ''go'' ''functions/hello/main.go'')
     ''/home/dev/shop''
   = Inr \<lparr>Image = ''nitric-go-dev'',
          TargetWD = ''/go/src/github.com/dev/shop'',
          Entrypoint = [],
          Cmd = [''go'', ''run'', ''./functions/hello/...''],
          Mounts = [\<lparr>Type = ''bind'', Source = ''/home/dev/go/pkg'', Target = ''/go/pkg''\<rparr>,
                    \<lparr>Type = ''bind'', Source = ''/home/dev/shop'',
                     Target = ''/go/src/github.com/dev/shop''\<rparr>]\<rparr>"
  by code_simp

text \<open>
  C8. Whatever the runtime and the run context, \<open>LaunchOptsForFunction\<close> and
  \<open>LaunchOptsForFunctionCollect\<close> each return launch options with a mount whose target
  is the target working directory itself and with bind mounts only. The one other
  outcome is that of the golang runtime when the Go module, the Go path or (for
  \<open>LaunchOptsForFunction\<close>) the relative handler cannot be found: then the error of
  that step is returned. The python runtime always returns launch options.
\<close>

theorem LaunchOpts_mounts:
  "((\<exists>opts. LaunchOptsForFunction hst t runCtx = Inr opts
          \<and> (\<exists>m \<in> set (Mounts opts). Target m = TargetWD opts)
          \<and> (\<forall>m \<in> set (Mounts opts). Type m = ''bind''))
    \<or> (\<exists>err r h. t = golang r h
          \<and> LaunchOptsForFunction hst t runCtx = Inl err
          \<and> (GoModule hst runCtx = Inl err \<or> relHandler runCtx h = Inl err
              \<or> GoPath hst = Inl err)))
   \<and> ((\<exists>opts. LaunchOptsForFunctionCollect hst t runCtx = Inr opts
          \<and> (\<exists>m \<in> set (Mounts opts). Target m = TargetWD opts)
          \<and> (\<forall>m \<in> set (Mounts opts). Type m = ''bind''))
    \<or> (\<exists>err r h. t = golang r h
          \<and> LaunchOptsForFunctionCollect hst t runCtx = Inl err
          \<and> (GoModule hst runCtx = Inl err \<or> GoPath hst = Inl err)))"
proof (cases t)
  case (golang r h)
  have "(\<exists>opts. LaunchOptsForFunction hst (golang r h) runCtx = Inr opts
          \<and> (\<exists>m \<in> set (Mounts opts). Target m = TargetWD opts)
          \<and> (\<forall>m \<in> set (Mounts opts). Type m = ''bind''))
        \<or> (\<exists>err. LaunchOptsForFunction hst (golang r h) runCtx = Inl err
          \<and> (GoModule hst runCtx = Inl err \<or> relHandler runCtx h = Inl err
              \<or> GoPath hst = Inl err))"
    by (cases "GoModule hst runCtx"; cases "relHandler runCtx h"; cases "GoPath hst")
      (simp_all add: Let_def)
  moreover
  have "(\<exists>opts. LaunchOptsForFunctionCollect hst (golang r h) runCtx = Inr opts
          \<and> (\<exists>m \<in> set (Mounts opts). Target m = TargetWD opts)
          \<and> (\<forall>m \<in> set (Mounts opts). Type m = ''bind''))
        \<or> (\<exists>err. LaunchOptsForFunctionCollect hst (golang r h) runCtx = Inl err
          \<and> (GoModule hst runCtx = Inl err \<or> GoPath hst = Inl err))"
    by (cases "GoModule hst runCtx"; cases "GoPath hst") simp_all
  ultimately show ?thesis
    using golang by simp
next
  case (python r h)
  then show ?thesis
    by simp
qed

theorem LaunchOpts_mounts_witness:
  "(\<exists>opts. LaunchOptsForFunction devHost (golang ''go'' ''functions/hello/main.go'')
             ''/home/dev/shop'' = Inr opts
          \<and> (\<exists>m \<in> set (Mounts opts). Target m = TargetWD opts)
          \<and> (\<forall>m \<in> set (Mounts opts). Type m = ''bind''))
   \<and> (\<exists>opts. LaunchOptsForFunctionCollect devHost (golang ''go'' ''functions/hello/main.go'')
             ''/home/dev/shop'' = Inr opts
          \<and> (\<exists>m \<in> set (Mounts opts). Target m = TargetWD opts)
          \<and> (\<forall>m \<in> set (Mounts opts). Type m = ''bind''))
   \<and> (\<exists>opts. LaunchOptsForFunction devHost (python ''python'' ''functions/hello.py'')
             ''/home/dev/shop'' = Inr opts
          \<and> (\<exists>m \<in> set (Mounts opts). Target m = TargetWD opts)
          \<and> (\<forall>m \<in> set (Mounts opts). Type m = ''bind''))
   \<and> (\<exists>opts. LaunchOptsForFunctionCollect devHost (python ''python'' ''functions/hello.py'')
             ''/home/dev/shop'' = Inr opts
          \<and> (\<exists>m \<in> set (Mounts opts). Target m = TargetWD opts)
          \<and> (\<forall>m \<in> set (Mounts opts). Type m = ''bind''))"
proof -
  note g = LaunchOpts_mounts [of devHost "golang ''go'' ''functions/hello/main.go''"
      "''/home/dev/shop''"]
  note p = LaunchOpts_mounts [of devHost "python ''python'' ''functions/hello.py''"
      "''/home/dev/shop''"]
  have ok: "\<And>err. LaunchOptsForFunction devHost (golang ''go'' ''functions/hello/main.go'')
               ''/home/dev/shop'' \<noteq> Inl err"
      "\<And>err. LaunchOptsForFunctionCollect devHost (golang ''go'' ''functions/hello/main.go'')
               ''/home/dev/shop'' \<noteq> Inl err"
    by (simp_all only: devHost_launch devHost_collect sum.distinct not_False_eq_True)
  from g ok have
    "(\<exists>opts. LaunchOptsForFunction devHost (golang ''go'' ''functions/hello/main.go'')
             ''/home/dev/shop'' = Inr opts
          \<and> (\<exists>m \<in> set (Mounts opts). Target m = TargetWD opts)
          \<and> (\<forall>m \<in> set (Mounts opts). Type m = ''bind''))
     \<and> (\<exists>opts. LaunchOptsForFunctionCollect devHost (golang ''go'' ''functions/hello/main.go'')
             ''/home/dev/shop'' = Inr opts
          \<and> (\<exists>m \<in> set (Mounts opts). Target m = TargetWD opts)
          \<and> (\<forall>m \<in> set (Mounts opts). Type m = ''bind''))"
    by blast
  moreover from p have
    "(\<exists>opts. LaunchOptsForFunction devHost (python ''python'' ''functions/hello.py'')
             ''/home/dev/shop'' = Inr opts
          \<and> (\<exists>m \<in> set (Mounts opts). Target m = TargetWD opts)
          \<and> (\<forall>m \<in> set (Mounts opts). Type m = ''bind''))
     \<and> (\<exists>opts. LaunchOptsForFunctionCollect devHost (python ''python'' ''functions/hello.py'')
             ''/home/dev/shop'' = Inr opts
          \<and> (\<exists>m \<in> set (Mounts opts). Target m = TargetWD opts)
          \<and> (\<forall>m \<in> set (Mounts opts). Type m = ''bind''))"
    by blast
  ultimately show ?thesis
    by blast
qed

text \<open>
  The python runtime always returns launch options; the golang runtime returns them
  exactly when the module, the relative handler and the Go path are found.
\<close>

lemma LaunchOpts_python_returned:
  "(\<exists>opts. LaunchOptsForFunction hst (python r h) runCtx = Inr opts)
   \<and> (\<exists>opts. LaunchOptsForFunctionCollect hst (python r h) runCtx = Inr opts)"
  by simp

lemma LaunchOpts_golang_returned:
  "(\<exists>opts. LaunchOptsForFunction hst (golang r h) runCtx = Inr opts)
   \<longleftrightarrow> (\<exists>m rel g. GoModule hst runCtx = Inr m \<and> relHandler runCtx h = Inr rel
                 \<and> GoPath hst = Inr g)"
  by (auto simp: Let_def split: sum.splits)

lemma LaunchOptsCollect_golang_returned:
  "(\<exists>opts. LaunchOptsForFunctionCollect hst (golang r h) runCtx = Inr opts)
   \<longleftrightarrow> (\<exists>m g. GoModule hst runCtx = Inr m \<and> GoPath hst = Inr g)"
  by (auto split: sum.splits)

section \<open>Engine detection\<close>

text \<open>\<open>Contains\<close> is the substring test.\<close>

lemma Index_Some:
  "Index s sub = Some n \<Longrightarrow> \<exists>b. s = take n s @ sub @ b \<and> n \<le> length s"
proof (induction s arbitrary: n)
  case Nil
  then show ?case by (simp split: if_splits)
next
  case (Cons c cs)
  show ?case
  proof (cases "prefix sub (c # cs)")
    case True
    with Cons.prems have "n = 0" by simp
    with True show ?thesis by (auto simp: prefix_def)
  next
    case False
    with Cons.prems obtain m where m: "Index cs sub = Some m" "n = Suc m"
      by auto
    from Cons.IH [OF m(1)] m(2) show ?thesis by auto
  qed
qed



text \<open>
  C4. When \<open>podman --version\<close> and \<open>docker --version\<close> both run and the output of the
  latter does not contain \<open>podman\<close> (the native docker CLI is installed beside podman),
  \<open>newPodman\<close> returns the error "both podman and docker found, will use docker" and
  no engine.
\<close>

theorem newPodman_both_found:
  assumes "podmanVersion pr = None"
    and "dockerVersion pr = (None, out)"
    and "\<not> Contains out ''podman''"
  shows "newPodman pr = (Inl (Err ''both podman and docker found, will use docker''), [])
         \<and> (\<forall>p. fst (newPodman pr) \<noteq> Inr p)"
  using assms by (simp add: newPodman_def)

theorem newPodman_both_found_witness:
  "newPodman \<lparr>podmanVersion = None,
              dockerVersion = (None, ''Docker version 20.10.11, build dea9396''),
              newClient = Inr (0::nat), containerList = (\<lambda>c. None)\<rparr>
   = (Inl (Err ''both podman and docker found, will use docker''), [])"
proof -
  have c: "\<not> Contains ''Docker version 20.10.11, build dea9396'' ''podman''"
    by (simp add: Contains_def)
  show ?thesis
    using newPodman_both_found [of "\<lparr>podmanVersion = None,
              dockerVersion = (None, ''Docker version 20.10.11, build dea9396''),
              newClient = Inr (0::nat), containerList = (\<lambda>c. None)\<rparr>"
              "''Docker version 20.10.11, build dea9396''"] c
    by simp
qed

text \<open>With the podman-docker shim in place of the docker CLI the engine is built.\<close>

lemma newPodman_shim:
  "newPodman \<lparr>podmanVersion = None,
              dockerVersion = (None, ''podman version 3.4.2''),
              newClient = Inr (0::nat), containerList = (\<lambda>c. None)\<rparr>
   = (Inr \<lparr>docker = \<lparr>cli = 0\<rparr>\<rparr>, [''podman found''])"
  by (simp add: newPodman_def Contains_def)

section \<open>The build command of the delegating engine\<close>

lemma buildArg_foldl:
  "foldl (\<lambda>args (k, v). args @ [''--build-arg'', Sprint [''%s=%s'', k, v]]) acc buildArgs
   = acc @ concat (map (\<lambda>(k, v). [''--build-arg'', ''%s=%s'' @ k @ v]) buildArgs)"
  by (induction buildArgs arbitrary: acc) (auto simp: Sprint_def)

text \<open>
  C1. \<open>podman.Build\<close> runs \<open>podman\<close> with \<open>build\<close>, the context directory, the recipe
  path and the lower-cased tag, followed for every entry of the build arguments by
  \<open>--build-arg\<close> and the result of \<open>fmt.Sprint("%s=%s", k, v)\<close>. \<open>Sprint\<close> takes no
  format: that result is the text \<open>%s=%s\<close> followed by the key and the value, not
  \<open>key=value\<close>.
\<close>

theorem podmanBuildArgs_forwarded:
  "podmanBuildArgs unicodeLower dockerfile path imageTag buildArgs
   = [''build'', path, ''-f'', dockerfile, ''-t'', ToLower unicodeLower imageTag]
     @ concat (map (\<lambda>(k, v). [''--build-arg'', ''%s=%s'' @ k @ v]) buildArgs)"
  unfolding podmanBuildArgs_def by (rule buildArg_foldl)

theorem podmanBuildArgs_forwarded_witness:
  "podmanBuildArgs (\<lambda>s. s) ''Dockerfile'' ''.'' ''Shop-Hello-AWS'' [(''PROVIDER'', ''aws'')]
   = [''build'', ''.'', ''-f'', ''Dockerfile'', ''-t'', ''shop-hello-aws'',
      ''--build-arg'', ''%s=%sPROVIDERaws'']"
proof -
  have l: "ToLower (\<lambda>s. s) ''Shop-Hello-AWS'' = ''shop-hello-aws''"
    by code_simp
  show ?thesis
    unfolding podmanBuildArgs_forwarded l by simp
qed

text \<open>\<open>Build\<close> starts the \<open>podman\<close> tool on that command line and returns how it ends.\<close>

lemma podman_Build_runs:
  "podman_Build os p dockerfile path imageTag buildArgs excludes w
   = (case start os ''podman''
             (podmanBuildArgs (toLowerRunes os) dockerfile path imageTag buildArgs) w of
        (Some err, w') \<Rightarrow> (Some err, w')
      | (None, w') \<Rightarrow>
          wait os ''podman''
            (podmanBuildArgs (toLowerRunes os) dockerfile path imageTag buildArgs) w')"
  by (simp add: podman_Build_def Let_def)

text \<open>No forwarded argument has the length of \<open>key=value\<close>.\<close>

lemma forwarded_pair_length:
  "length (Sprint [''%s=%s'', k, v]) = length (k @ ''='' @ v) + 4"
  by (simp add: Sprint_def)

section \<open>Ignore patterns\<close>

text \<open>
  C2, as stated, at the golang runtime: with a baseline of three patterns its
  \<open>BuildIgnore\<close> contains none of them.
\<close>

theorem BuildIgnore_golang_misses_baseline:
  "\<not> set [''.nitric/'', ''.git/'', ''.idea/'']
       \<subseteq> set (BuildIgnore [''.nitric/'', ''.git/'', ''.idea/'']
                 (golang ''go'' ''functions/hello/main.go''))"
  by simp

text \<open>
  C2, amended. The python \<open>BuildIgnore\<close> is the baseline followed by three python
  patterns, so it contains every baseline element; the golang \<open>BuildIgnore\<close> is the
  empty list. Both depend on the variant only, not on the handler or the extension.
\<close>

theorem BuildIgnore_by_variant:
  "set ci \<subseteq> set (BuildIgnore ci (python r h))
   \<and> BuildIgnore ci (python r h) = ci @ [''__pycache__/'', ''*.py[cod]'', ''*$py.class'']
   \<and> BuildIgnore ci (golang r h) = []
   \<and> BuildIgnore ci (python r h) = BuildIgnore ci (python r' h')
   \<and> BuildIgnore ci (golang r h) = BuildIgnore ci (golang r' h')"
  by auto

theorem BuildIgnore_by_variant_witness:
  "set [''.nitric/'', ''.git/'', ''.idea/'']
     \<subseteq> set (BuildIgnore [''.nitric/'', ''.git/'', ''.idea/''] (python ''python'' ''functions/hello.py''))"
  using BuildIgnore_by_variant [where ci = "[''.nitric/'', ''.git/'', ''.idea/'']"
      and r = "''python''" and h = "''functions/hello.py''"]
  by blast

section \<open>Delegation to the native engine\<close>

text \<open>
  C5, as stated, at \<open>Logger\<close>: over a native engine with a logger of its own the
  delegating engine still returns its \<open>jsonfile\<close> logger.
\<close>

theorem podman_Logger_not_delegated:
  "podman_Logger logFileIn \<lparr>docker = \<lparr>cli = ()\<rparr>\<rparr> ''/home/dev/shop'' ()
   \<noteq> docker_Logger offlineDocker \<lparr>cli = ()\<rparr> ''/home/dev/shop'' ()"
  by (simp add: podman_Logger_def logFileIn_def offlineDocker_def)

text \<open>
  C5, amended. \<open>ListImages\<close>, \<open>ImagePull\<close>, \<open>ContainerCreate\<close>, \<open>Start\<close>, \<open>Stop\<close>,
  \<open>ContainerWait\<close>, \<open>RemoveByLabel\<close> and \<open>ContainerLogs\<close> of the delegating engine
  return, in every state of the backend, what the same method of the embedded native
  engine returns. \<open>Logger\<close> does not ask the native engine: it returns a \<open>jsonfile\<close>
  logger on the path given by \<open>NewNitricLogFile\<close>. \<open>Build\<close> does not ask it either:
  its result is the same over any embedded engine.
\<close>

theorem podman_delegates:
  "podman_ListImages D p stackName containerName w
     = docker_ListImages D (docker p) stackName containerName w
   \<and> podman_ImagePull D p rawImage pullOpts w = docker_ImagePull D (docker p) rawImage pullOpts w
   \<and> podman_ContainerCreate D p config hostConfig networkingConfig nm w
     = docker_ContainerCreate D (docker p) config hostConfig networkingConfig nm w
   \<and> podman_Start D p nameOrID w = docker_Start D (docker p) nameOrID w
   \<and> podman_Stop D p nameOrID timeout w = docker_Stop D (docker p) nameOrID timeout w
   \<and> podman_ContainerWait D p containerID condition w
     = docker_ContainerWait D (docker p) containerID condition w
   \<and> podman_RemoveByLabel D p labels w = docker_RemoveByLabel D (docker p) labels w
   \<and> podman_ContainerLogs D p containerID logsOpts w
     = docker_ContainerLogs D (docker p) containerID logsOpts w
   \<and> podman_Logger newNitricLogFile p stackPath w
     = (jsonfile (fst (fst (newNitricLogFile stackPath w))), snd (newNitricLogFile stackPath w))
   \<and> podman_Build os p dockerfile path imageTag buildArgs excludes w
     = podman_Build os p' dockerfile path imageTag buildArgs excludes w"
  by (simp add: podman_Build_def podman_ListImages_def podman_ImagePull_def podman_ContainerCreate_def
      podman_Start_def podman_Stop_def podman_ContainerWait_def podman_RemoveByLabel_def
      podman_ContainerLogs_def podman_Logger_def split: prod.splits)

theorem podman_delegates_witness:
  "podman_Start offlineDocker \<lparr>docker = \<lparr>cli = ()\<rparr>\<rparr> ''c0ffee'' ()
     = (Some (Err ''not connected''), ())
   \<and> podman_Logger logFileIn \<lparr>docker = \<lparr>cli = ()\<rparr>\<rparr> ''/home/dev/shop'' ()
     = (jsonfile ''/home/dev/shop/.nitric/run.log'' :: string ContainerLogger, ())"
proof -
  note c3 = podman_delegates [THEN conjunct2, THEN conjunct2, THEN conjunct2]
  note c8 = c3 [THEN conjunct2, THEN conjunct2, THEN conjunct2, THEN conjunct2, THEN conjunct2,
      THEN conjunct1]
  have "podman_Start offlineDocker \<lparr>docker = \<lparr>cli = ()\<rparr>\<rparr> ''c0ffee'' ()
        = docker_Start offlineDocker \<lparr>cli = ()\<rparr> ''c0ffee'' ()"
    using c3 [THEN conjunct1, of offlineDocker "\<lparr>docker = \<lparr>cli = ()\<rparr>\<rparr>" "''c0ffee''" "()"]
    by simp
  moreover have "podman_Logger logFileIn \<lparr>docker = \<lparr>cli = ()\<rparr>\<rparr> ''/home/dev/shop'' ()
        = (jsonfile (fst (fst (logFileIn ''/home/dev/shop'' ()))) :: string ContainerLogger,
           snd (logFileIn ''/home/dev/shop'' ()))"
    by (rule c8)
  ultimately show ?thesis
    by (simp add: offlineDocker_def logFileIn_def)
qed

section \<open>Container names\<close>

text \<open>
  C9. \<open>ContainerName\<close> returns a string and no error. For python it removes the first
  occurrence of the extension text from the base name, which is not always the
  extension: for \<open>functions/api.pyramid.py\<close> the base name is \<open>api.pyramid.py\<close>, the
  extension \<open>.py\<close>, and the name returned \<open>apiramid.py\<close>, where the base name without
  its extension is \<open>api.pyramid\<close>.
\<close>

theorem python_ContainerName_pyramid:
  "ContainerName hst (python r ''functions/api.pyramid.py'') = ''apiramid.py''"
  by (simp add: Base_def Ext_def Replace1_def IsPathSeparator_def Separator_def)

theorem python_ContainerName_pyramid_witness:
  "ContainerName devHost (python ''python'' ''functions/api.pyramid.py'') = ''apiramid.py''
   \<and> Base ''functions/api.pyramid.py'' = ''api.pyramid.py''
   \<and> Ext ''functions/api.pyramid.py'' = ''.py''"
  using python_ContainerName_pyramid [of devHost "''python''"]
  by (simp add: Base_def Ext_def IsPathSeparator_def Separator_def)

text \<open>
  The golang name is empty when the working directory cannot be read, and the base name
  of the handler's directory, never empty, once the handler is resolved.
\<close>

lemma golang_ContainerName_no_wd:
  "\<not> IsAbs h \<Longrightarrow> Getwd hst = Inl err \<Longrightarrow> ContainerName hst (golang r h) = []"
  by (simp add: Abs_def)

lemma Base_not_empty: "Base p \<noteq> []"
  by (simp add: Base_def Let_def)

lemma golang_ContainerName_resolved:
  "Abs (Getwd hst) h = Inr absH \<Longrightarrow>
     ContainerName hst (golang r h) = Base (Dir absH) \<and> ContainerName hst (golang r h) \<noteq> []"
  by (simp add: Base_not_empty)

lemma python_ContainerName_hello:
  "ContainerName hst (python r ''functions/hello.py'') = ''hello''"
  by (simp add: Base_def Ext_def Replace1_def IsPathSeparator_def Separator_def)

text \<open>
  Where the first occurrence of the extension text in the base name is the extension
  itself, the python name is the base name without its extension.
\<close>

lemma python_ContainerName_suffix:
  assumes "Index (Base h) (Ext h) = Some j"
    and "j + length (Ext h) = length (Base h)"
  shows "ContainerName hst (python r h) @ Ext h = Base h"
proof (cases "Ext h = []")
  case True
  then show ?thesis by (simp add: Replace1_def)
next
  case False
  from Index_Some [OF assms(1)] obtain b where b: "Base h = take j (Base h) @ Ext h @ b"
    and j: "j \<le> length (Base h)"
    by blast
  have "length (Base h) = length (take j (Base h) @ Ext h @ b)"
    by (rule arg_cong [OF b])
  then have "length (Base h) = length (take j (Base h)) + length (Ext h) + length b"
    by (simp only: length_append add.assoc)
  moreover have "length (take j (Base h)) = j"
    using j by simp
  ultimately have "length b = 0"
    using assms(2) by linarith
  then have "b = []" by simp
  with b have "take j (Base h) @ Ext h = Base h" by simp
  moreover have "ContainerName hst (python r h) = take j (Base h)"
    using False assms by (simp add: Replace1_def)
  ultimately show ?thesis by simp
qed

section \<open>Production recipes\<close>

lemma splitOn_not_Nil: "splitOn d s \<noteq> []"
  by (induction s) (auto split: list.splits)

lemma splitOn_append: "splitOn d (a @ d # b) = splitOn d a @ splitOn d b"
proof (induction a)
  case Nil
  then show ?case by simp
next
  case (Cons c a)
  then show ?case
    using splitOn_not_Nil [of d a] by (auto split: list.splits)
qed

lemma splitOn_no_delim: "d \<notin> set s \<Longrightarrow> splitOn d s = [s]"
  by (induction s) auto






lemma sublist_Cons_skip: "sublist xs ys \<Longrightarrow> sublist xs (a # ys)"
  by (simp add: sublist_Cons_right)





text \<open>
  The javascript generator of package \<open>functiondockerfile\<close> sets only the command in
  its own configuration. Its recipe holds what \<open>withMembrane\<close> adds, and the copy of
  the build context when the builder accepts it; it exposes port 9001 exactly when the
  statements of \<open>withMembrane\<close> do.
\<close>

lemma javascriptGenerator_sidecar:
  assumes "javascriptGenerator pkg f version provider = Inr rc"
  shows "refersToSidecar pkg version provider rc"
  using assms
  by (auto simp: javascriptGenerator_def Let_def copyUnchecked_def split: option.splits
      intro!: sublist_Cons_skip)

lemma javascriptGenerator_copies:
  assumes "javascriptGenerator pkg f version provider = Inr rc"
    and "copyErr (bld pkg) ''.'' ''.'' = None"
  shows "copiesContext rc"
  using assms
  by (auto simp: javascriptGenerator_def Let_def copyUnchecked_def split: option.splits)

lemma javascriptGenerator_port:
  assumes "javascriptGenerator pkg f version provider = Inr rc"
  shows "exposes9001 rc \<longleftrightarrow> list_ex (exposes 9001) (withMembrane pkg version provider)"
  using assms
  by (auto simp: javascriptGenerator_def Let_def copyUnchecked_def noConfig_def list_ex_iff
      split: option.splits)

text \<open>With the example package, whose \<open>withMembrane\<close> exposes nothing, neither does the recipe.\<close>

lemma javascriptGenerator_example:
  "javascriptGenerator examplePackage exampleFunction ''v1.2.3'' ''aws''
   = Inr (Statements
       [FromStmt \<lparr>From = ''node:alpine'', As = [],
                  Ignore = [''node_modules/'', ''.nitric/'', ''.git/'', ''.idea/'']\<rparr>,
        Other ''ADD https://example.org/membrane/v1.2.3/membrane-aws /usr/local/bin/membrane'',
        Copy ''package.json *.lock *-lock.json'' ''/'',
        Run [''yarn'', ''import'', ''||'', ''echo'', ''Lockfile already exists''],
        Run [''set'', ''-ex;'', ''yarn'', ''install'', ''--production'', ''--frozen-lockfile'',
             ''--cache-folder'', ''/tmp/.cache;'', ''rm'', ''-rf'', ''/tmp/.cache;''],
        Copy ''.'' ''.'',
        Config \<lparr>WorkingDir = [], Env = [], Ports = [],
                Cmd_config = [''node'', ''functions/hello.js'']\<rparr>])"
  by (simp add: javascriptGenerator_def examplePackage_def exampleFunction_def acceptAll_def
      exampleUrl_def copyUnchecked_def noConfig_def)

section \<open>The handler relative to the run context\<close>

text \<open>Elements between separators hold no separator.\<close>

lemma splitOn_sep_free: "e \<in> set (splitOn d s) \<Longrightarrow> d \<notin> set e"
proof (induction s arbitrary: e)
  case Nil
  then show ?case by simp
next
  case (Cons c s)
  show ?case
  proof (cases "c = d")
    case True
    with Cons show ?thesis by auto
  next
    case False
    obtain x xs where sp: "splitOn d s = x # xs"
      using splitOn_not_Nil [of d s] by (cases "splitOn d s") auto
    with Cons.prems False have "e = c # x \<or> e \<in> set xs"
      by auto
    then show ?thesis
    proof
      assume "e = c # x"
      moreover have "d \<notin> set x" using Cons.IH [of x] sp by simp
      ultimately show ?thesis using False by auto
    next
      assume "e \<in> set xs"
      then show ?thesis using Cons.IH [of e] sp by simp
    qed
  qed
qed

lemma dotdots_nfOut: "\<not> rt \<Longrightarrow> set out \<subseteq> {''..''} \<Longrightarrow> nfOut rt out"
  by (induction out) auto

lemma nfOut_suffix: "nfOut rt (a @ b) \<Longrightarrow> nfOut rt b"
proof (induction a)
  case Nil
  then show ?case by simp
next
  case (Cons e a)
  show ?case
  proof (cases "e = ''..''")
    case True
    with Cons.prems have "\<not> rt" "set b \<subseteq> {''..''}" by auto
    then show ?thesis by (rule dotdots_nfOut)
  next
    case False
    with Cons show ?thesis by simp
  qed
qed

lemma nfOut_elem:
  "nfOut rt out \<Longrightarrow> e \<in> set out \<Longrightarrow> e \<noteq> [] \<and> e \<noteq> ''.'' \<and> Separator \<notin> set e"
proof (induction out)
  case Nil
  then show ?case by simp
next
  case (Cons x out)
  show ?case
  proof (cases "x = ''..''")
    case True
    with Cons.prems have "e = ''..''" by auto
    then show ?thesis by (simp add: Separator_def)
  next
    case False
    with Cons show ?thesis by auto
  qed
qed

lemma cleanStep_nf:
  assumes "nfOut rt out" and "Separator \<notin> set e"
  shows "nfOut rt (cleanStep rt out e)"
proof (cases "e = [] \<or> e = ''.''")
  case True
  with assms show ?thesis by (auto simp: cleanStep_def)
next
  case plain: False
  show ?thesis
  proof (cases "e = ''..''")
    case False
    with plain assms show ?thesis by (simp add: cleanStep_def)
  next
    case dd: True
    show ?thesis
    proof (cases out)
      case Nil
      with dd show ?thesis by (simp add: cleanStep_def)
    next
      case (Cons l ls)
      show ?thesis
      proof (cases "l = ''..''")
        case True
        with Cons dd assms show ?thesis by (auto simp: cleanStep_def)
      next
        case False
        with Cons assms have "nfOut rt ls" by simp
        with Cons dd False show ?thesis by (simp add: cleanStep_def)
      qed
    qed
  qed
qed

lemma foldl_cleanStep_nf:
  "nfOut rt out \<Longrightarrow> (\<And>e. e \<in> set es \<Longrightarrow> Separator \<notin> set e)
     \<Longrightarrow> nfOut rt (foldl (cleanStep rt) out es)"
proof (induction es arbitrary: out)
  case Nil
  then show ?case by simp
next
  case (Cons e es)
  have "nfOut rt (cleanStep rt out e)"
    using Cons.prems by (intro cleanStep_nf) auto
  then show ?case
    using Cons.prems by (auto intro: Cons.IH)
qed

lemma nfOut_cleanElems: "nfOut (rooted p) (rev (cleanElems p))"
  unfolding cleanElems_def splitSep_def rev_rev_ident
  by (rule foldl_cleanStep_nf) (auto dest: splitOn_sep_free)

lemma cleanStep_push: "nfOut rt (x # out) \<Longrightarrow> cleanStep rt out x = x # out"
  by (cases out) (auto simp: cleanStep_def)

lemma foldl_push: "nfOut rt (rev X @ out) \<Longrightarrow> foldl (cleanStep rt) out X = rev X @ out"
proof (induction X arbitrary: out)
  case Nil
  then show ?case by simp
next
  case (Cons x X)
  from Cons.prems have all: "nfOut rt (rev X @ x # out)" by simp
  then have "nfOut rt (x # out)" by (rule nfOut_suffix)
  then have "cleanStep rt out x = x # out" by (rule cleanStep_push)
  with Cons.IH [OF all] show ?case by simp
qed


lemma joinSep_Cons: "es \<noteq> [] \<Longrightarrow> joinSep (e # es) = e @ Separator # joinSep es"
  by (cases es) auto

lemma splitSep_append: "splitSep (a @ Separator # b) = splitSep a @ splitSep b"
  by (simp add: splitSep_def splitOn_append)

lemma splitSep_joinSep:
  "X \<noteq> [] \<Longrightarrow> (\<And>e. e \<in> set X \<Longrightarrow> Separator \<notin> set e) \<Longrightarrow> splitSep (joinSep X) = X"
proof (induction X rule: joinSep.induct)
  case 1
  then show ?case by simp
next
  case (2 e)
  then show ?case by (simp add: splitSep_def splitOn_no_delim)
next
  case (3 e e' es)
  have "splitSep (joinSep (e' # es)) = e' # es"
    using "3.prems" by (intro "3.IH") auto
  moreover have "splitSep e = [e]"
    using "3.prems" by (simp add: splitSep_def splitOn_no_delim)
  moreover have "joinSep (e # e' # es) = e @ Separator # joinSep (e' # es)"
    by simp
  ultimately show ?case
    by (simp only: splitSep_append append_Cons append_Nil)
qed

lemma joinSep_hd:
  "X \<noteq> [] \<Longrightarrow> hd X \<noteq> [] \<Longrightarrow> joinSep X \<noteq> [] \<and> hd (joinSep X) = hd (hd X)"
  by (induction X rule: joinSep.induct) auto

lemma takeWhile_elem:
  "Separator \<notin> set e \<Longrightarrow> takeWhile (\<lambda>c. c \<noteq> Separator) (e @ Separator # s) = e"
  by (induction e) auto

lemma takeWhile_whole:
  "Separator \<notin> set e \<Longrightarrow> takeWhile (\<lambda>c. c \<noteq> Separator) e = e"
  by (induction e) auto

text \<open>The loop of \<open>Rel\<close> walks over the elements the base shares with the target.\<close>

lemma relLoop_common:
  assumes "X \<noteq> []"
  shows "A \<noteq> [] \<Longrightarrow> (\<And>e. e \<in> set A \<Longrightarrow> e \<noteq> [] \<and> Separator \<notin> set e)
     \<Longrightarrow> relLoop (joinSep A) (joinSep (A @ X)) = ([], joinSep X, [])"
proof (induction A rule: joinSep.induct)
  case 1
  then show ?case by simp
next
  case (2 e)
  then have e: "e \<noteq> []" "Separator \<notin> set e" by auto
  have t: "joinSep ([e] @ X) = e @ Separator # joinSep X"
    using assms by (simp add: joinSep_Cons)
  have "relLoop e (e @ Separator # joinSep X)
        = relLoop (drop (Suc (length e)) e) (drop (Suc (length e)) (e @ Separator # joinSep X))"
    using e by (subst relLoop.simps) (simp add: takeWhile_elem takeWhile_whole Let_def)
  also have "\<dots> = relLoop [] (joinSep X)"
    by simp
  also have "\<dots> = ([], joinSep X, [])"
    by (subst relLoop.simps) simp
  finally show ?case
    using t by simp
next
  case (3 e e' es)
  then have e: "e \<noteq> []" "Separator \<notin> set e" by auto
  let ?b = "joinSep (e' # es)" and ?t = "joinSep ((e' # es) @ X)"
  have b: "joinSep (e # e' # es) = e @ Separator # ?b"
    by simp
  have t: "joinSep ((e # e' # es) @ X) = e @ Separator # ?t"
    by simp
  have "relLoop (e @ Separator # ?b) (e @ Separator # ?t)
        = relLoop (drop (Suc (length e)) (e @ Separator # ?b))
            (drop (Suc (length e)) (e @ Separator # ?t))"
    using e by (subst relLoop.simps) (simp add: takeWhile_elem Let_def)
  also have "\<dots> = relLoop ?b ?t"
    by simp
  also have "\<dots> = ([], joinSep X, [])"
    using "3.prems" by (intro "3.IH") auto
  finally show ?case
    unfolding b t .
qed

lemma relLoop_rooted:
  "relLoop (Separator # b) (Separator # t) = relLoop b t"
  by (subst relLoop.simps) simp

lemma relLoop_Nil: "relLoop [] t = ([], t, [])"
  by (subst relLoop.simps) simp


lemma rooted_append: "r \<noteq> [] \<Longrightarrow> rooted (r @ s) = rooted r"
  by (cases r) (auto simp: rooted_def)

lemma cleanElems_join:
  assumes "r \<noteq> []"
  shows "cleanElems (r @ Separator # s)
         = rev (foldl (cleanStep (rooted r)) (rev (cleanElems r)) (splitSep s))"
  using assms by (simp add: cleanElems_def rooted_append splitSep_append)

lemma Clean_join:
  assumes "r \<noteq> []"
  shows "Clean (r @ Separator # s)
         = render (rooted r) (rev (foldl (cleanStep (rooted r)) (rev (cleanElems r)) (splitSep s)))"
  using assms by (simp add: Clean_def cleanElems_join rooted_append)

lemma Clean_empty: "Clean [] = ''.''"
  by (simp add: Clean_def render_def cleanElems_def rooted_def splitSep_def cleanStep_def)

lemma Clean_dot: "Clean ''.'' = ''.''"
  by (simp add: Clean_def render_def cleanElems_def rooted_def splitSep_def cleanStep_def
      IsPathSeparator_def Separator_def)

lemma Join_dot: "Join [r, ''.''] = Clean r"
proof (cases "r = []")
  case True
  then show ?thesis by (simp add: Clean_empty Clean_dot)
next
  case False
  have sp: "splitSep ''.'' = [''.'']"
    by (simp add: splitSep_def Separator_def)
  have "Clean (r @ Separator # ''.'')
        = render (rooted r) (rev (foldl (cleanStep (rooted r)) (rev (cleanElems r)) (splitSep ''.'')))"
    using False by (rule Clean_join)
  also have "\<dots> = render (rooted r) (cleanElems r)"
    unfolding sp by (simp add: cleanStep_def)
  also have "\<dots> = Clean r"
    by (simp add: Clean_def)
  finally show ?thesis
    using False by simp
qed

lemma joinSep_not_dot:
  assumes "A \<noteq> []" and "\<And>e. e \<in> set A \<Longrightarrow> e \<noteq> ''.''"
  shows "joinSep A \<noteq> ''.''"
proof (cases A rule: joinSep.cases)
  case 1
  with assms show ?thesis by simp
next
  case (2 e)
  with assms show ?thesis by simp
next
  case (3 e e' es)
  then have "Separator \<in> set (joinSep A)" by simp
  then show ?thesis by (auto simp: Separator_def)
qed

lemma joinSep_not_rooted:
  assumes "X \<noteq> []" and "\<And>e. e \<in> set X \<Longrightarrow> e \<noteq> [] \<and> Separator \<notin> set e"
  shows "joinSep X \<noteq> [] \<and> \<not> rooted (joinSep X) \<and> \<not> IsAbs (joinSep X)"
proof -
  from assms have h: "hd X \<noteq> []" "Separator \<notin> set (hd X)"
    by (cases X; auto)+
  with assms(1) have j: "joinSep X \<noteq> []" "hd (joinSep X) = hd (hd X)"
    using joinSep_hd [of X] by auto
  from h have "hd (hd X) \<noteq> Separator"
    by (cases "hd X") auto
  with j have "hd (joinSep X) \<noteq> Separator" by simp
  with j(1) show ?thesis
    by (cases "joinSep X")
      (auto simp: rooted_def IsAbs_def HasPrefix_def IsPathSeparator_def Separator_def)
qed


text \<open>
  \<open>Rel\<close> from a base to a target whose cleaned elements extend the base's: the result
  is the extension, joined.
\<close>

lemma Rel_inside:
  assumes rt: "rooted r = rooted h"
    and ext: "cleanElems h = cleanElems r @ X"
    and ne: "Clean h \<noteq> Clean r"
  shows "X \<noteq> [] \<and> Rel r h = Inr (joinSep X)"
proof -
  let ?rt = "rooted r" and ?A = "cleanElems r"
  have X: "X \<noteq> []"
    using ne rt ext by (auto simp: Clean_def)
  have "nfOut (rooted h) (rev (cleanElems h))"
    by (rule nfOut_cleanElems)
  then have el: "\<And>e. e \<in> set (?A @ X) \<Longrightarrow> e \<noteq> [] \<and> e \<noteq> ''.'' \<and> Separator \<notin> set e"
    using nfOut_elem [of "rooted h" "rev (cleanElems h)"] ext by auto
  have T: "Clean h = render ?rt (?A @ X)"
    by (simp add: Clean_def rt ext)
  have B: "Clean r = render ?rt ?A"
    by (simp add: Clean_def)
  have jX: "joinSep X \<noteq> []" "\<not> rooted (joinSep X)"
    using joinSep_not_rooted [of X] X el by auto
  have loop: "relLoop (if Clean r = ''.'' then [] else Clean r) (Clean h) = ([], joinSep X, [])
              \<and> rooted (if Clean r = ''.'' then [] else Clean r) = rooted (Clean h)"
  proof (cases ?rt)
    case True
    then have b: "Clean r = Separator # joinSep ?A" and t: "Clean h = Separator # joinSep (?A @ X)"
      by (simp_all add: B T render_def)
    have nd: "Clean r \<noteq> ''.''"
      by (simp add: b Separator_def)
    have "relLoop (joinSep ?A) (joinSep (?A @ X)) = ([], joinSep X, [])"
    proof (cases "?A = []")
      case True
      then show ?thesis by (simp add: relLoop_Nil)
    next
      case False
      then show ?thesis using X el by (intro relLoop_common) auto
    qed
    then show ?thesis
      using nd by (simp add: b t relLoop_rooted rooted_def IsPathSeparator_def)
  next
    case nrt: False
    show ?thesis
    proof (cases "?A = []")
      case True
      then have b: "Clean r = ''.''" and t: "Clean h = joinSep X"
        using nrt X by (simp_all add: B T render_def)
      show ?thesis
        using jX by (simp add: b t relLoop_Nil rooted_def)
    next
      case False
      then have b: "Clean r = joinSep ?A" and t: "Clean h = joinSep (?A @ X)"
        using nrt by (simp_all add: B T render_def)
      have nd: "joinSep ?A \<noteq> ''.''"
        using False el by (intro joinSep_not_dot) auto
      have rb: "\<not> rooted (joinSep ?A)"
        using joinSep_not_rooted [of ?A] False el by auto
      have rt': "\<not> rooted (joinSep (?A @ X))"
        using joinSep_not_rooted [of "?A @ X"] False el by auto
      have "relLoop (joinSep ?A) (joinSep (?A @ X)) = ([], joinSep X, [])"
        using False X el by (intro relLoop_common) auto
      then show ?thesis
        using nd rb rt' by (simp add: b t)
    qed
  qed
  have "Rel r h = Inr (joinSep X)"
    using ne loop by (simp add: Rel_def Let_def)
  with X show ?thesis by simp
qed

text \<open>Joining the base and the extension gives the cleaned target back.\<close>

lemma Join_inside:
  assumes rt: "rooted r = rooted h"
    and ext: "cleanElems h = cleanElems r @ X"
    and X: "X \<noteq> []"
  shows "Join [r, joinSep X] = Clean h"
proof -
  let ?rt = "rooted r" and ?A = "cleanElems r"
  have nf: "nfOut ?rt (rev X @ rev ?A)"
    using nfOut_cleanElems [of h] by (simp add: rt ext)
  then have el: "\<And>e. e \<in> set X \<Longrightarrow> e \<noteq> [] \<and> Separator \<notin> set e"
    using nfOut_elem [of ?rt "rev X @ rev ?A"] by auto
  have sp: "splitSep (joinSep X) = X"
    using X el by (intro splitSep_joinSep) auto
  have jX: "joinSep X \<noteq> []" "\<not> rooted (joinSep X)"
    using joinSep_not_rooted [of X] X el by auto
  show ?thesis
  proof (cases "r = []")
    case False
    have "Clean (r @ Separator # joinSep X)
          = render ?rt (rev (foldl (cleanStep ?rt) (rev ?A) (splitSep (joinSep X))))"
      using False by (rule Clean_join)
    also have "\<dots> = render ?rt (rev (rev X @ rev ?A))"
      unfolding sp using nf by (simp only: foldl_push)
    also have "\<dots> = Clean h"
      by (simp add: Clean_def rt ext)
    finally show ?thesis
      using False by simp
  next
    case True
    then have A: "?A = []" and nrt: "\<not> ?rt"
      by (simp_all add: cleanElems_def rooted_def splitSep_def cleanStep_def)
    have "cleanElems (joinSep X) = rev (foldl (cleanStep False) [] X)"
      using jX by (simp add: cleanElems_def sp)
    also have "\<dots> = X"
      using nf A nrt by (simp add: foldl_push [of False X "[]", simplified])
    finally have "Clean (joinSep X) = render False X"
      using jX by (simp add: Clean_def)
    also have "\<dots> = Clean h"
      using A nrt by (simp add: Clean_def rt [symmetric] ext)
    finally show ?thesis
      using True jX by simp
  qed
qed

text \<open>
  A handler that the code passes on unchanged: joined to a run context that cleans to
  no element (the working directory or the root, however written), it is cleaned and
  nothing more.
\<close>

lemma Join_no_elems:
  assumes "rooted r = rooted h" and "cleanElems r = []" and "r \<noteq> []"
  shows "Join [r, h] = Clean h"
proof -
  have "Clean (r @ Separator # h)
        = render (rooted r) (rev (foldl (cleanStep (rooted r)) (rev (cleanElems r)) (splitSep h)))"
    using assms(3) by (rule Clean_join)
  also have "\<dots> = render (rooted h) (rev (foldl (cleanStep (rooted h)) [] (splitSep h)))"
    by (simp only: assms(1,2) rev.simps)
  also have "\<dots> = Clean h"
    by (simp add: Clean_def cleanElems_def)
  finally show ?thesis
    using assms(3) by simp
qed

lemma IsAbs_rooted: "IsAbs p \<longleftrightarrow> rooted p"
  by (cases p) (auto simp: IsAbs_def HasPrefix_def rooted_def IsPathSeparator_def Separator_def)

text \<open>
  C6, amended. For every handler that lies lexically inside the run context: when the
  handler text starts with the run context (the test the code makes before it asks
  \<open>Rel\<close>), the relative handler is computed without error, is not an absolute path,
  and joined to the run context gives the cleaned handler path; otherwise the handler
  is passed on unchanged, it is absolute exactly when the run context is rooted, and
  joined to a run context that cleans to no element (the working directory or the
  root) it gives the cleaned handler path.
\<close>

theorem relHandler_inside:
  assumes "inside runCtx h"
  shows "if HasPrefix h runCtx
         then \<exists>rel. relHandler runCtx h = Inr rel \<and> \<not> IsAbs rel
                    \<and> Join [runCtx, rel] = Clean h
         else relHandler runCtx h = Inr h \<and> (IsAbs h \<longleftrightarrow> rooted runCtx)
              \<and> (cleanElems runCtx = [] \<longrightarrow> Join [runCtx, h] = Clean h)"
proof -
  from assms obtain X where rt: "rooted runCtx = rooted h"
    and ext: "cleanElems h = cleanElems runCtx @ X"
    by (auto simp: inside_def prefix_def)
  show ?thesis
  proof (cases "HasPrefix h runCtx")
    case guarded: True
    have "\<exists>rel. relHandler runCtx h = Inr rel \<and> \<not> IsAbs rel \<and> Join [runCtx, rel] = Clean h"
    proof (cases "Clean h = Clean runCtx")
      case True
      then have "relHandler runCtx h = Inr ''.''"
        using guarded by (simp add: relHandler_def Rel_def)
      moreover have "\<not> IsAbs ''.''"
        by (simp add: IsAbs_def HasPrefix_def)
      moreover have "Join [runCtx, ''.''] = Clean h"
        using True by (simp only: Join_dot)
      ultimately show ?thesis by blast
    next
      case False
      from Rel_inside [OF rt ext False]
      have X: "X \<noteq> []" and rel: "Rel runCtx h = Inr (joinSep X)"
        by auto
      have "nfOut (rooted h) (rev (cleanElems h))"
        by (rule nfOut_cleanElems)
      then have "\<And>e. e \<in> set X \<Longrightarrow> e \<noteq> [] \<and> Separator \<notin> set e"
        using nfOut_elem [of "rooted h" "rev (cleanElems h)"] ext by auto
      then have "\<not> IsAbs (joinSep X)"
        using joinSep_not_rooted [of X] X by auto
      moreover have "relHandler runCtx h = Inr (joinSep X)"
        using guarded rel by (simp add: relHandler_def)
      moreover have "Join [runCtx, joinSep X] = Clean h"
        using rt ext X by (rule Join_inside)
      ultimately show ?thesis by blast
    qed
    with guarded show ?thesis by simp
  next
    case unguarded: False
    then have ne: "runCtx \<noteq> []"
      by (auto simp: HasPrefix_def)
    have "relHandler runCtx h = Inr h"
      using unguarded by (simp add: relHandler_def)
    moreover have "IsAbs h \<longleftrightarrow> rooted runCtx"
      by (simp add: IsAbs_rooted rt)
    moreover have "cleanElems runCtx = [] \<longrightarrow> Join [runCtx, h] = Clean h"
    proof
      assume "cleanElems runCtx = []"
      with rt show "Join [runCtx, h] = Clean h"
        using ne by (rule Join_no_elems)
    qed
    ultimately show ?thesis
      using unguarded by simp
  qed
qed

theorem relHandler_inside_witness:
  "(inside ''/home/dev/shop'' ''/home/dev/shop/./functions//hello/main.go''
    \<and> HasPrefix ''/home/dev/shop/./functions//hello/main.go'' ''/home/dev/shop''
    \<and> relHandler ''/home/dev/shop'' ''/home/dev/shop/./functions//hello/main.go''
        = Inr ''functions/hello/main.go''
    \<and> \<not> IsAbs ''functions/hello/main.go''
    \<and> Join [''/home/dev/shop'', ''functions/hello/main.go'']
        = Clean ''/home/dev/shop/./functions//hello/main.go'')
   \<and> (inside ''.'' ''functions/hello/main.go''
    \<and> \<not> HasPrefix ''functions/hello/main.go'' ''.''
    \<and> cleanElems ''.'' = []
    \<and> relHandler ''.'' ''functions/hello/main.go'' = Inr ''functions/hello/main.go''
    \<and> \<not> IsAbs ''functions/hello/main.go''
    \<and> Join [''.'', ''functions/hello/main.go''] = Clean ''functions/hello/main.go'')"
proof -
  let ?r = "''/home/dev/shop''" and ?h = "''/home/dev/shop/./functions//hello/main.go''"
  let ?g = "''functions/hello/main.go''"
  have p: "HasPrefix ?h ?r"
    by (simp add: HasPrefix_def)
  have i: "inside ?r ?h"
    by code_simp
  have e: "relHandler ?r ?h = Inr ?g"
    by code_simp
  from relHandler_inside [OF i] p e
  have first: "\<not> IsAbs ?g \<and> Join [?r, ?g] = Clean ?h"
    by auto
  have q: "\<not> HasPrefix ?g ''.''"
    by (simp add: HasPrefix_def)
  have j: "inside ''.'' ?g"
    by code_simp
  have c: "cleanElems ''.'' = []"
    by code_simp
  have nr: "\<not> rooted ''.''"
    by (simp add: rooted_def IsPathSeparator_def Separator_def)
  from relHandler_inside [OF j] q c nr
  have second: "relHandler ''.'' ?g = Inr ?g \<and> \<not> IsAbs ?g \<and> Join [''.'', ?g] = Clean ?g"
    by simp
  from p i e first q j c second show ?thesis
    by simp
qed

text \<open>
  C6, as stated, fails in three ways. A handler inside the run context \<open>./shop\<close> that
  does not start with that text is kept as it is, and joining it to the run context
  doubles the directory. An absolute handler inside a run context written \<open>/home/dev/shop/.\<close>
  is kept as it is, an absolute path. And for a handler with a \<open>.\<close> element the join
  differs from the handler by more than separators.
\<close>

theorem relHandler_outside_guard:
  "inside ''./shop'' ''shop/functions/hello/main.go''
   \<and> relHandler ''./shop'' ''shop/functions/hello/main.go'' = Inr ''shop/functions/hello/main.go''
   \<and> Join [''./shop'', ''shop/functions/hello/main.go''] = ''shop/shop/functions/hello/main.go''
   \<and> inside ''/home/dev/shop/.'' ''/home/dev/shop/functions/hello/main.go''
   \<and> relHandler ''/home/dev/shop/.'' ''/home/dev/shop/functions/hello/main.go''
       = Inr ''/home/dev/shop/functions/hello/main.go''
   \<and> IsAbs ''/home/dev/shop/functions/hello/main.go''
   \<and> HasPrefix ''/home/dev/shop/./functions/hello/main.go'' ''/home/dev/shop''
   \<and> relHandler ''/home/dev/shop'' ''/home/dev/shop/./functions/hello/main.go''
       = Inr ''functions/hello/main.go''
   \<and> filter (\<lambda>e. e \<noteq> []) (splitSep (ToSlash (Join [''/home/dev/shop'', ''functions/hello/main.go''])))
       \<noteq> filter (\<lambda>e. e \<noteq> []) (splitSep (ToSlash ''/home/dev/shop/./functions/hello/main.go''))"
  by code_simp

end
